theory Spec2Isabelle
  imports Complex_Main
begin

section \<open>Values of a parsed package.json\<close>

text \<open>
  \<open>packageJson.read()\<close> hands \<open>AddonInfo.create\<close> the value that \<open>JSON.parse\<close> built from
  the manifest. An object is the list of its own properties (keys distinct, as in a
  parsed object). A finite JavaScript number is a rational; \<open>JSON.parse\<close> never yields
  \<open>NaN\<close>, and an overflowing literal (\<open>Infinity\<close>) passes every test made below like any
  number other than 0 and 2.
\<close>

datatype json =
    JNull
  | JBool bool
  | JNum rat
  | JStr string
  | JArr "json list"
  | JObj "(string \<times> json) list"

text \<open>\<open>Boolean(v)\<close>; \<open>None\<close> is \<open>undefined\<close>, the value of a property that is absent.\<close>

fun truthy :: "json option \<Rightarrow> bool" where
  "truthy None = False"
| "truthy (Some JNull) = False"
| "truthy (Some (JBool b)) = b"
| "truthy (Some (JNum n)) = (n \<noteq> 0)"
| "truthy (Some (JStr s)) = (s \<noteq> [])"
| "truthy (Some (JArr xs)) = True"
| "truthy (Some (JObj kv)) = True"

text \<open>
  A parsed object inherits from \<open>Object.prototype\<close>: \<open>obj[k]\<close> and \<open>k in obj\<close> find these
  names on every object, each bound to a function (or, for \<open>__proto__\<close>, to the prototype
  object), all of them truthy.
\<close>

definition object_prototype_names :: "string list" where
  "object_prototype_names =
     [''constructor'', ''hasOwnProperty'', ''isPrototypeOf'', ''propertyIsEnumerable'',
      ''toLocaleString'', ''toString'', ''valueOf'', ''__proto__'',
      ''__defineGetter__'', ''__defineSetter__'', ''__lookupGetter__'', ''__lookupSetter__'']"

text \<open>\<open>Boolean(obj[k])\<close> for a parsed object \<open>obj\<close>: an own property first, then the prototype.\<close>

definition property_truthy :: "(string \<times> json) list \<Rightarrow> string \<Rightarrow> bool" where
  "property_truthy kv k =
     (case map_of kv k of
        Some v \<Rightarrow> truthy (Some v)
      | None \<Rightarrow> k \<in> set object_prototype_names)"

text \<open>\<open>Object.keys(obj)\<close>: the own keys only.\<close>

definition object_keys :: "(string \<times> json) list option \<Rightarrow> string list" where
  "object_keys obj = (case obj of None \<Rightarrow> [] | Some kv \<Rightarrow> map fst kv)"

section \<open>Strings\<close>

text \<open>
  \<open>s.includes(p)\<close>, \<open>s.split('/')\<close> and \<open>s.replace(c, r)\<close> with a one-character pattern.
  The characters searched for (\<open>/\<close> and \<open>@\<close>) are ASCII, so their first occurrence is the
  same in the byte string of the model as in the UTF-16 string of the program.
\<close>

fun string_includes :: "string \<Rightarrow> string \<Rightarrow> bool" where
  "string_includes [] p = (p = [])"
| "string_includes (c # cs) p = (take (length p) (c # cs) = p \<or> string_includes cs p)"

fun split :: "char \<Rightarrow> string \<Rightarrow> string list" where
  "split sep [] = [[]]"
| "split sep (c # cs) =
     (if c = sep then [] # split sep cs
      else (case split sep cs of
              [] \<Rightarrow> [[c]]
            | seg # segs \<Rightarrow> (c # seg) # segs))"

text \<open>A string pattern replaces its first occurrence only.\<close>

fun replace :: "char \<Rightarrow> string \<Rightarrow> string \<Rightarrow> string" where
  "replace pat rep [] = []"
| "replace pat rep (c # cs) = (if c = pat then rep @ cs else c # replace pat rep cs)"

text \<open>\<open>xs[1]\<close>: \<open>undefined\<close> (\<open>None\<close>) when the array is shorter.\<close>

fun index1 :: "'a list \<Rightarrow> 'a option" where
  "index1 (x # y # ys) = Some y"
| "index1 xs = None"

section \<open>Errors\<close>

text \<open>
  \<open>exn\<close> is whatever a supplier function rejects with. \<open>TypeError\<close> is the runtime's own
  error for a property read on \<open>undefined\<close>, a call of a non-function and \<open>in\<close> applied
  to a primitive.
\<close>

datatype exn = Exn string

datatype error =
    AnalysisError string
  | NothingToDoError string
  | TypeError
  | Rejected exn

type_synonym 'a outcome = "exn + 'a"

section \<open>The manifest and the options\<close>

text \<open>
  The properties of the manifest that the analysis reads. \<open>name\<close> is a string or absent,
  as the class uses it (\<open>split\<close>, \<open>replace\<close>); \<open>dependencies\<close> and \<open>devDependencies\<close> are
  objects or absent (\<open>null\<close> behaves as absent under \<open>?.\<close> and under spread); \<open>keywords\<close>,
  \<open>ember-addon\<close> and \<open>ember\<close> are any JSON value or absent. None of these six names is
  inherited from \<open>Object.prototype\<close>.
\<close>

record PackageJson =
  pkg_name :: "string option"
  pkg_keywords :: "json option"
  pkg_dependencies :: "(string \<times> json) list option"
  pkg_devDependencies :: "(string \<times> json) list option"
  pkg_ember_addon :: "json option"
  pkg_ember :: "json option"

text \<open>
  \<open>Options\<close> of the run. The four string options may be left out by the caller
  (\<open>None\<close>): every reader of them supplies a default. The prefix \<open>opt_\<close> keeps an
  option apart from the getter of the same name, as \<open>pkg_\<close> does for the manifest.
\<close>

record Options =
  reuseExistingVersions :: bool
  ignoreNewDependencies :: bool
  reuseExistingConfigs :: bool
  analysisOnly :: bool
  opt_addonLocation :: "string option"
  opt_testAppLocation :: "string option"
  opt_testAppName :: "string option"
  opt_directory :: "string option"

datatype PackageManager = npm | yarn | pnpm

text \<open>
  Modelled from the spec: the type \<open>ImportedDependencies\<close> of \<open>types\<close> is not among the
  sources; the spec has the set of module names imported by the source files.
\<close>

type_synonym ImportedDependencies = "string list"

record AddonInfo =
  packageJson :: PackageJson
  options :: Options
  packageManager :: PackageManager
  packageManagerRoot :: string
  gitRoot :: string
  tmpDirectory :: string
  importedDependencies :: ImportedDependencies

text \<open>The argument of the constructor, and the constructor.\<close>

record ResolvedInfo =
  r_packageJson :: PackageJson
  r_options :: Options
  r_packageManager :: PackageManager
  r_packageManagerRoot :: string
  r_repoRoot :: string
  r_tmpDirectory :: string
  r_importedDependencies :: ImportedDependencies

definition new_AddonInfo :: "ResolvedInfo \<Rightarrow> AddonInfo" where
  "new_AddonInfo resolvedInfo =
     \<lparr> packageJson = r_packageJson resolvedInfo,
       options = r_options resolvedInfo,
       packageManager = r_packageManager resolvedInfo,
       packageManagerRoot = r_packageManagerRoot resolvedInfo,
       gitRoot = r_repoRoot resolvedInfo,
       tmpDirectory = r_tmpDirectory resolvedInfo,
       importedDependencies = r_importedDependencies resolvedInfo \<rparr>"

section \<open>The getters of AddonInfo\<close>

text \<open>\<open>{...dependencies, ...devDependencies}\<close> and the set of its keys.\<close>

definition localDependencyNames :: "AddonInfo \<Rightarrow> string list" where
  "localDependencyNames info =
     object_keys (pkg_dependencies (packageJson info)) @
     object_keys (pkg_devDependencies (packageJson info))"

definition name :: "AddonInfo \<Rightarrow> string option" where
  "name info = pkg_name (packageJson info)"

definition isTS :: "AddonInfo \<Rightarrow> bool" where
  "isTS info = (''typescript'' \<in> set (localDependencyNames info))"

definition isYarn :: "AddonInfo \<Rightarrow> bool" where
  "isYarn info = (packageManager info = yarn)"

definition isNpm :: "AddonInfo \<Rightarrow> bool" where
  "isNpm info = (packageManager info = npm)"

definition isPnpm :: "AddonInfo \<Rightarrow> bool" where
  "isPnpm info = (packageManager info = pnpm)"

definition isEmber :: "AddonInfo \<Rightarrow> bool" where
  "isEmber info =
     (truthy (pkg_ember_addon (packageJson info)) \<or> truthy (pkg_ember (packageJson info)))"

text \<open>
  \<open>Boolean(keywords?.includes('ember-addon'))\<close>: \<open>undefined\<close> and \<open>null\<close> stop at \<open>?.\<close>; an
  array has the element or not; a string has \<open>includes\<close> too, the substring test; a
  boolean, a number and an object have no function \<open>includes\<close>, and the call raises.
\<close>

fun keywords_includes :: "json option \<Rightarrow> error + bool" where
  "keywords_includes None = Inr False"
| "keywords_includes (Some JNull) = Inr False"
| "keywords_includes (Some (JArr ks)) = Inr (JStr ''ember-addon'' \<in> set ks)"
| "keywords_includes (Some (JStr s)) = Inr (string_includes s ''ember-addon'')"
| "keywords_includes (Some (JBool b)) = Inl TypeError"
| "keywords_includes (Some (JNum n)) = Inl TypeError"
| "keywords_includes (Some (JObj kv)) = Inl TypeError"

definition isAddon :: "AddonInfo \<Rightarrow> error + bool" where
  "isAddon info =
     (if isEmber info then keywords_includes (pkg_keywords (packageJson info))
      else Inr False)"

text \<open>
  \<open>emberAddon && 'version' in emberAddon\<close>, then \<open>emberAddon.version === 2\<close>. \<open>in\<close> raises
  on a primitive; an array has no property \<open>version\<close>; \<open>version\<close> is not inherited from
  \<open>Object.prototype\<close>, so on an object it is an own property or none.
\<close>

fun version_is_2 :: "json option \<Rightarrow> error + bool" where
  "version_is_2 (Some (JObj kv)) =
     (if ''version'' \<in> set (map fst kv) \<or> ''version'' \<in> set object_prototype_names
      then Inr (map_of kv ''version'' = Some (JNum 2))
      else Inr False)"
| "version_is_2 (Some (JArr xs)) = Inr False"
| "version_is_2 v = (if truthy v then Inl TypeError else Inr False)"

definition isV2Addon :: "AddonInfo \<Rightarrow> error + bool" where
  "isV2Addon info =
     (case isAddon info of
        Inl e \<Rightarrow> Inl e
      | Inr False \<Rightarrow> Inr False
      | Inr True \<Rightarrow> version_is_2 (pkg_ember_addon (packageJson info)))"

definition isV1Addon :: "AddonInfo \<Rightarrow> error + bool" where
  "isV1Addon info =
     (case isAddon info of
        Inl e \<Rightarrow> Inl e
      | Inr False \<Rightarrow> Inr False
      | Inr True \<Rightarrow>
          (case isV2Addon info of
             Inl e \<Rightarrow> Inl e
           | Inr v2 \<Rightarrow> Inr (\<not> v2)))"

definition isBiggerMonorepo :: "AddonInfo \<Rightarrow> bool" where
  "isBiggerMonorepo info = (packageManagerRoot info \<noteq> gitRoot info)"

text \<open>
  \<open>option || dflt\<close> on an optional string: \<open>undefined\<close> and \<open>""\<close> are falsy. \<open>or_default\<close>
  is for a default that is a value, \<open>or_else\<close> for one whose evaluation may raise; the
  default is evaluated only when the option is falsy.
\<close>

definition or_default :: "string option \<Rightarrow> string \<Rightarrow> string" where
  "or_default opt dflt =
     (case opt of
        None \<Rightarrow> dflt
      | Some s \<Rightarrow> if s = [] then dflt else s)"

definition or_else :: "string option \<Rightarrow> (error + string) \<Rightarrow> error + string" where
  "or_else opt dflt =
     (case opt of
        None \<Rightarrow> dflt
      | Some s \<Rightarrow> if s = [] then dflt else Inr s)"

text \<open>\<open>directory\<close> reads \<open>process.cwd()\<close>: the working directory at the time of the call.\<close>

definition directory :: "string \<Rightarrow> AddonInfo \<Rightarrow> string" where
  "directory process_cwd info = or_default (opt_directory (options info)) process_cwd"

definition tmpLocation :: "AddonInfo \<Rightarrow> string" where
  "tmpLocation info = tmpDirectory info"

text \<open>
  \<open>this.name.split('/')[1] ?? this.name\<close>: a \<open>TypeError\<close> when the manifest has no name.
\<close>

definition name_after_slash :: "string option \<Rightarrow> error + string" where
  "name_after_slash nm =
     (case nm of
        None \<Rightarrow> Inl TypeError
      | Some n \<Rightarrow>
          (case index1 (split CHR ''/'' n) of
             Some seg \<Rightarrow> Inr seg
           | None \<Rightarrow> Inr n))"

definition addonLocation :: "AddonInfo \<Rightarrow> error + string" where
  "addonLocation info =
     (if isBiggerMonorepo info
      then Inr (or_default (opt_addonLocation (options info)) ''pacakge'')
      else or_else (opt_addonLocation (options info)) (name_after_slash (name info)))"

definition testAppLocation :: "AddonInfo \<Rightarrow> string" where
  "testAppLocation info = or_default (opt_testAppLocation (options info)) ''test-app''"

definition pathifyNpmName :: "string \<Rightarrow> string" where
  "pathifyNpmName nm = replace CHR ''/'' ''__'' (replace CHR ''@'' '''' nm)"

text \<open>\<open>`test-app-for-${pathifyNpmName(this.name)}`\<close>: \<open>replace\<close> on \<open>undefined\<close> raises.\<close>

definition test_app_for :: "string option \<Rightarrow> error + string" where
  "test_app_for nm =
     (case nm of
        None \<Rightarrow> Inl TypeError
      | Some n \<Rightarrow> Inr (''test-app-for-'' @ pathifyNpmName n))"

definition testAppName :: "AddonInfo \<Rightarrow> error + string" where
  "testAppName info =
     (if isBiggerMonorepo info
      then or_else (opt_testAppName (options info)) (test_app_for (name info))
      else Inr (or_default (opt_testAppName (options info)) ''test-app''))"

definition hasDependency :: "AddonInfo \<Rightarrow> string \<Rightarrow> bool" where
  "hasDependency info dep =
     (case pkg_dependencies (packageJson info) of
        None \<Rightarrow> False
      | Some kv \<Rightarrow> property_truthy kv dep)"

definition hasDevDependency :: "AddonInfo \<Rightarrow> string \<Rightarrow> bool" where
  "hasDevDependency info dep =
     (case pkg_devDependencies (packageJson info) of
        None \<Rightarrow> False
      | Some kv \<Rightarrow> property_truthy kv dep)"

section \<open>Construction\<close>

text \<open>
  The supplier functions that \<open>create\<close> calls are parameters of the model: what each one
  resolves to (\<open>Inr\<close>) or rejects with (\<open>Inl\<close>) in the environment of the run, and the
  working directory of the process.
\<close>

record GuessedPackageManager =
  manager :: PackageManager
  root :: string

record Suppliers =
  packageJson_read :: "PackageJson outcome"
  findRoot :: "string outcome"
  guessPackageManager :: "string \<Rightarrow> Options \<Rightarrow> GuessedPackageManager outcome"
  analyzeImports :: "string \<Rightarrow> ImportedDependencies outcome"
  createTmp :: "string outcome"
  process_cwd :: string

text \<open>
  An asynchronous computation either returns or throws, and it leaves a record of the
  supplier functions it has called, in the order of the calls.
\<close>

datatype call =
    Call_packageJson_read
  | Call_findRoot
  | Call_guessPackageManager
  | Call_analyzeImports
  | Call_createTmp

type_synonym 'a async = "call list \<Rightarrow> (error + 'a) \<times> call list"

definition return :: "'a \<Rightarrow> 'a async" where
  "return v calls = (Inr v, calls)"

definition throw :: "error \<Rightarrow> 'a async" where
  "throw e calls = (Inl e, calls)"

text \<open>\<open>let x = await m; f x\<close>: the rest runs only when \<open>m\<close> has returned.\<close>

definition await :: "'a async \<Rightarrow> ('a \<Rightarrow> 'b async) \<Rightarrow> 'b async" where
  "await m f calls =
     (case m calls of
        (Inl e, calls') \<Rightarrow> (Inl e, calls')
      | (Inr v, calls') \<Rightarrow> f v calls')"

text \<open>The call of a supplier function: it is recorded, and its rejection is thrown.\<close>

definition invoke :: "call \<Rightarrow> 'a outcome \<Rightarrow> 'a async" where
  "invoke c r calls =
     (case r of
        Inl x \<Rightarrow> (Inl (Rejected x), calls @ [c])
      | Inr v \<Rightarrow> (Inr v, calls @ [c]))"

text \<open>
  Modelled from the spec: \<open>error.js\<close> (\<open>tryOrFail\<close> and \<open>NothingToDoError\<close>) is not among
  the sources. The spec has each guarded step fail with an error that carries the
  message given for the step, whatever the step threw; \<open>tryOrFail\<close> receives nothing
  but the step and the message.
\<close>

definition tryOrFail :: "'a async \<Rightarrow> string \<Rightarrow> 'a async" where
  "tryOrFail fn message calls =
     (case fn calls of
        (Inl e, calls') \<Rightarrow> (Inl (AnalysisError message), calls')
      | (Inr v, calls') \<Rightarrow> (Inr v, calls'))"

definition manifest_message :: string where
  "manifest_message =
     ''Could not read the package.json. '' @
     ''Please either run ember-addon-migrator from a package directory, or specify a path to a package directory via --directory''"

definition git_message :: string where
  "git_message = ''Could not find git root. Only git is supported at this time.''"

definition package_manager_message :: string where
  "package_manager_message =
     ''Could not determine package manager. Only npm, yarn, and pnpm are supported at this time.''"

text \<open>
  Modelled from the spec: the three failures of the spec's taxonomy that a guarded step
  gives, each told from the others by its message.
\<close>

definition ManifestReadError :: error where
  "ManifestReadError = AnalysisError manifest_message"

definition RepoDiscoveryError :: error where
  "RepoDiscoveryError = AnalysisError git_message"

definition PackageManagerError :: error where
  "PackageManagerError = AnalysisError package_manager_message"

text \<open>\<open>`${info.name}`\<close>: the name, or the text \<open>undefined\<close>.\<close>

definition template_name :: "string option \<Rightarrow> string" where
  "template_name nm = (case nm of None \<Rightarrow> ''undefined'' | Some n \<Rightarrow> n)"

definition create :: "Suppliers \<Rightarrow> Options \<Rightarrow> AddonInfo async" where
  "create env opts =
     await (tryOrFail (invoke Call_packageJson_read (packageJson_read env)) manifest_message)
       (\<lambda>pkgJson.
     await (tryOrFail (invoke Call_findRoot (findRoot env)) git_message)
       (\<lambda>repoRoot.
     await (tryOrFail (invoke Call_guessPackageManager (guessPackageManager env repoRoot opts))
              package_manager_message)
       (\<lambda>pm.
     await (invoke Call_analyzeImports (analyzeImports env (process_cwd env)))
       (\<lambda>imported.
     await (invoke Call_createTmp (createTmp env))
       (\<lambda>tmp.
          let info = new_AddonInfo
                \<lparr> r_packageJson = pkgJson,
                  r_options = opts,
                  r_packageManager = manager pm,
                  r_packageManagerRoot = root pm,
                  r_repoRoot = repoRoot,
                  r_tmpDirectory = tmp,
                  r_importedDependencies = imported \<rparr>
          in (case isV2Addon info of
                Inl e \<Rightarrow> throw e
              | Inr True \<Rightarrow>
                  throw (NothingToDoError
                    (template_name (name info) @ '' is already a V2 addon. Migration will stop.''))
              | Inr False \<Rightarrow> return info))))))"

text \<open>One run of \<open>AddonInfo.create\<close>: its result and the supplier functions it called.\<close>

definition run_create :: "Suppliers \<Rightarrow> Options \<Rightarrow> (error + AddonInfo) \<times> call list" where
  "run_create env opts = create env opts []"

section \<open>The query surface\<close>

text \<open>
  Every getter and method of a constructed \<open>AddonInfo\<close>, asked in a process whose
  working directory is \<open>process_cwd\<close> at the time of the call.
\<close>

datatype query =
    Q_name | Q_isTS | Q_isYarn | Q_isNpm | Q_isPnpm
  | Q_isEmber | Q_isAddon | Q_isV1Addon | Q_isV2Addon | Q_isBiggerMonorepo
  | Q_directory | Q_tmpLocation | Q_addonLocation | Q_testAppLocation | Q_testAppName
  | Q_hasDependency string | Q_hasDevDependency string

datatype answer = Bool bool | Str string | Undefined

definition answer_bool :: "error + bool \<Rightarrow> error + answer" where
  "answer_bool r = (case r of Inl e \<Rightarrow> Inl e | Inr b \<Rightarrow> Inr (Bool b))"

definition answer_str :: "error + string \<Rightarrow> error + answer" where
  "answer_str r = (case r of Inl e \<Rightarrow> Inl e | Inr s \<Rightarrow> Inr (Str s))"

fun ask :: "string \<Rightarrow> AddonInfo \<Rightarrow> query \<Rightarrow> error + answer" where
  "ask cwd info Q_name = Inr (case name info of None \<Rightarrow> Undefined | Some n \<Rightarrow> Str n)"
| "ask cwd info Q_isTS = Inr (Bool (isTS info))"
| "ask cwd info Q_isYarn = Inr (Bool (isYarn info))"
| "ask cwd info Q_isNpm = Inr (Bool (isNpm info))"
| "ask cwd info Q_isPnpm = Inr (Bool (isPnpm info))"
| "ask cwd info Q_isEmber = Inr (Bool (isEmber info))"
| "ask cwd info Q_isAddon = answer_bool (isAddon info)"
| "ask cwd info Q_isV1Addon = answer_bool (isV1Addon info)"
| "ask cwd info Q_isV2Addon = answer_bool (isV2Addon info)"
| "ask cwd info Q_isBiggerMonorepo = Inr (Bool (isBiggerMonorepo info))"
| "ask cwd info Q_directory = Inr (Str (directory cwd info))"
| "ask cwd info Q_tmpLocation = Inr (Str (tmpLocation info))"
| "ask cwd info Q_addonLocation = answer_str (addonLocation info)"
| "ask cwd info Q_testAppLocation = Inr (Str (testAppLocation info))"
| "ask cwd info Q_testAppName = answer_str (testAppName info)"
| "ask cwd info (Q_hasDependency dep) = Inr (Bool (hasDependency info dep))"
| "ask cwd info (Q_hasDevDependency dep) = Inr (Bool (hasDevDependency info dep))"

section \<open>The getters as operations on the program state\<close>

text \<open>
  A getter of the class is code that runs with the whole program state in reach: it
  could assign to a field of the object, and it could read the process. The state is
  the \<open>AddonInfo\<close> object and the working directory of the process; an operation
  returns or throws, and hands on the state it leaves behind.
\<close>

record world =
  self :: AddonInfo
  working_directory :: string

type_synonym 'a operation = "world \<Rightarrow> (error + 'a) \<times> world"

definition m_return :: "'a \<Rightarrow> 'a operation" where
  "m_return v w = (Inr v, w)"

text \<open>An expression on values that may raise, such as a call on \<open>undefined\<close>.\<close>

definition m_lift :: "error + 'a \<Rightarrow> 'a operation" where
  "m_lift r w = (r, w)"

definition m_bind :: "'a operation \<Rightarrow> ('a \<Rightarrow> 'b operation) \<Rightarrow> 'b operation" where
  "m_bind m f w =
     (case m w of
        (Inl e, w') \<Rightarrow> (Inl e, w')
      | (Inr v, w') \<Rightarrow> f v w')"

text \<open>\<open>this.field\<close> and \<open>process.cwd()\<close>, the two reads of the state.\<close>

definition read_self :: "(AddonInfo \<Rightarrow> 'a) \<Rightarrow> 'a operation" where
  "read_self field w = (Inr (field (self w)), w)"

definition m_process_cwd :: "string operation" where
  "m_process_cwd w = (Inr (working_directory w), w)"

text \<open>\<open>option || dflt\<close>, the default being an operation that runs only when needed.\<close>

definition m_or :: "string option \<Rightarrow> string operation \<Rightarrow> string operation" where
  "m_or opt dflt =
     (case opt of
        None \<Rightarrow> dflt
      | Some s \<Rightarrow> if s = [] then dflt else m_return s)"

definition m_localDependencyNames :: "string list operation" where
  "m_localDependencyNames =
     m_bind (read_self packageJson) (\<lambda>pkg.
       m_return (object_keys (pkg_dependencies pkg) @ object_keys (pkg_devDependencies pkg)))"

definition m_name :: "string option operation" where
  "m_name = m_bind (read_self packageJson) (\<lambda>pkg. m_return (pkg_name pkg))"

definition m_isTS :: "bool operation" where
  "m_isTS = m_bind m_localDependencyNames (\<lambda>names. m_return (''typescript'' \<in> set names))"

definition m_isYarn :: "bool operation" where
  "m_isYarn = m_bind (read_self packageManager) (\<lambda>pm. m_return (pm = yarn))"

definition m_isNpm :: "bool operation" where
  "m_isNpm = m_bind (read_self packageManager) (\<lambda>pm. m_return (pm = npm))"

definition m_isPnpm :: "bool operation" where
  "m_isPnpm = m_bind (read_self packageManager) (\<lambda>pm. m_return (pm = pnpm))"

definition m_isEmber :: "bool operation" where
  "m_isEmber =
     m_bind (read_self packageJson) (\<lambda>pkg.
       m_return (truthy (pkg_ember_addon pkg) \<or> truthy (pkg_ember pkg)))"

definition m_isAddon :: "bool operation" where
  "m_isAddon =
     m_bind m_isEmber (\<lambda>ember.
       if ember
       then m_bind (read_self packageJson) (\<lambda>pkg. m_lift (keywords_includes (pkg_keywords pkg)))
       else m_return False)"

definition m_isV2Addon :: "bool operation" where
  "m_isV2Addon =
     m_bind m_isAddon (\<lambda>addon.
       if \<not> addon then m_return False
       else m_bind (read_self packageJson) (\<lambda>pkg. m_lift (version_is_2 (pkg_ember_addon pkg))))"

definition m_isV1Addon :: "bool operation" where
  "m_isV1Addon =
     m_bind m_isAddon (\<lambda>addon.
       if addon then m_bind m_isV2Addon (\<lambda>v2. m_return (\<not> v2))
       else m_return False)"

definition m_isBiggerMonorepo :: "bool operation" where
  "m_isBiggerMonorepo =
     m_bind (read_self packageManagerRoot) (\<lambda>pmRoot.
     m_bind (read_self gitRoot) (\<lambda>git.
       m_return (pmRoot \<noteq> git)))"

definition m_directory :: "string operation" where
  "m_directory = m_bind (read_self options) (\<lambda>opts. m_or (opt_directory opts) m_process_cwd)"

definition m_tmpLocation :: "string operation" where
  "m_tmpLocation = read_self tmpDirectory"

definition m_addonLocation :: "string operation" where
  "m_addonLocation =
     m_bind m_isBiggerMonorepo (\<lambda>bigger.
     m_bind (read_self options) (\<lambda>opts.
       if bigger then m_or (opt_addonLocation opts) (m_return ''pacakge'')
       else m_or (opt_addonLocation opts)
              (m_bind m_name (\<lambda>nm. m_lift (name_after_slash nm)))))"

definition m_testAppLocation :: "string operation" where
  "m_testAppLocation =
     m_bind (read_self options) (\<lambda>opts. m_or (opt_testAppLocation opts) (m_return ''test-app''))"

definition m_testAppName :: "string operation" where
  "m_testAppName =
     m_bind m_isBiggerMonorepo (\<lambda>bigger.
     m_bind (read_self options) (\<lambda>opts.
       if bigger
       then m_or (opt_testAppName opts) (m_bind m_name (\<lambda>nm. m_lift (test_app_for nm)))
       else m_or (opt_testAppName opts) (m_return ''test-app'')))"

definition m_hasDependency :: "string \<Rightarrow> bool operation" where
  "m_hasDependency dep =
     m_bind (read_self packageJson) (\<lambda>pkg.
       m_return (case pkg_dependencies pkg of
                   None \<Rightarrow> False
                 | Some kv \<Rightarrow> property_truthy kv dep))"

definition m_hasDevDependency :: "string \<Rightarrow> bool operation" where
  "m_hasDevDependency dep =
     m_bind (read_self packageJson) (\<lambda>pkg.
       m_return (case pkg_devDependencies pkg of
                   None \<Rightarrow> False
                 | Some kv \<Rightarrow> property_truthy kv dep))"

text \<open>The answer of a query, as a caller sees it.\<close>

definition m_bool :: "bool operation \<Rightarrow> answer operation" where
  "m_bool m = m_bind m (\<lambda>b. m_return (Bool b))"

definition m_str :: "string operation \<Rightarrow> answer operation" where
  "m_str m = m_bind m (\<lambda>s. m_return (Str s))"

fun call_query :: "query \<Rightarrow> answer operation" where
  "call_query Q_name =
     m_bind m_name (\<lambda>nm. m_return (case nm of None \<Rightarrow> Undefined | Some n \<Rightarrow> Str n))"
| "call_query Q_isTS = m_bool m_isTS"
| "call_query Q_isYarn = m_bool m_isYarn"
| "call_query Q_isNpm = m_bool m_isNpm"
| "call_query Q_isPnpm = m_bool m_isPnpm"
| "call_query Q_isEmber = m_bool m_isEmber"
| "call_query Q_isAddon = m_bool m_isAddon"
| "call_query Q_isV1Addon = m_bool m_isV1Addon"
| "call_query Q_isV2Addon = m_bool m_isV2Addon"
| "call_query Q_isBiggerMonorepo = m_bool m_isBiggerMonorepo"
| "call_query Q_directory = m_str m_directory"
| "call_query Q_tmpLocation = m_str m_tmpLocation"
| "call_query Q_addonLocation = m_str m_addonLocation"
| "call_query Q_testAppLocation = m_str m_testAppLocation"
| "call_query Q_testAppName = m_str m_testAppName"
| "call_query (Q_hasDependency dep) = m_bool (m_hasDependency dep)"
| "call_query (Q_hasDevDependency dep) = m_bool (m_hasDevDependency dep)"

text \<open>
  What happens to the state while an \<open>AddonInfo\<close> is in use: a consumer asks a query,
  or the program changes the working directory of the process (\<open>process.chdir\<close>). A
  history is any sequence of the two; \<open>run\<close> gives the answers in order and the state
  the history ends in.
\<close>

datatype event = Query query | Chdir string

fun run :: "event list \<Rightarrow> world \<Rightarrow> (error + answer) list \<times> world" where
  "run [] w = ([], w)"
| "run (Query q # es) w =
     (case call_query q w of
        (a, w') \<Rightarrow> (case run es w' of (answers, w'') \<Rightarrow> (a # answers, w'')))"
| "run (Chdir dir # es) w = run es (w \<lparr> working_directory := dir \<rparr>)"

text \<open>The answer to \<open>q\<close> when it is asked after the history \<open>h\<close>.\<close>

definition answer_after :: "event list \<Rightarrow> query \<Rightarrow> world \<Rightarrow> error + answer" where
  "answer_after h q w = fst (call_query q (snd (run h w)))"

section \<open>Notions of the specification\<close>

text \<open>
  Modelled from the spec: the error taxonomy. A failure of the manifest reader, of the
  repository-root finder or of the package-manager detector is known by its message;
  \<open>NothingToDoError\<close> is the fourth member.
\<close>

fun is_taxonomy_error :: "error \<Rightarrow> bool" where
  "is_taxonomy_error (AnalysisError m) =
     (m = manifest_message \<or> m = git_message \<or> m = package_manager_message)"
| "is_taxonomy_error (NothingToDoError m) = True"
| "is_taxonomy_error TypeError = False"
| "is_taxonomy_error (Rejected x) = False"

text \<open>
  The sanitization of a package name in the words of the specification, written without
  \<open>replace\<close>: a leading scope marker \<open>@\<close> is stripped, and the scope separator (the
  first \<open>/\<close> of a scoped name) becomes a double underscore; a name without a scope
  marker is left as it is.
\<close>

definition spec_sanitized_package_name :: "string \<Rightarrow> string" where
  "spec_sanitized_package_name n =
     (case n of
        [] \<Rightarrow> []
      | c # rest \<Rightarrow>
          if c = CHR ''@''
          then (case dropWhile (\<lambda>x. x \<noteq> CHR ''/'') rest of
                  [] \<Rightarrow> rest
                | sep # nm \<Rightarrow> takeWhile (\<lambda>x. x \<noteq> CHR ''/'') rest @ ''__'' @ nm)
          else n)"

section \<open>A sample run\<close>

text \<open>
  A scoped v1 addon in a workspace below the repository root, and the same manifest
  once migrated; the theorems below are instantiated at these.
\<close>

definition ex_options :: Options where
  "ex_options =
     \<lparr> reuseExistingVersions = False, ignoreNewDependencies = False,
       reuseExistingConfigs = False, analysisOnly = False,
       opt_addonLocation = None, opt_testAppLocation = None,
       opt_testAppName = None, opt_directory = None \<rparr>"

definition ex_manifest_v1 :: PackageJson where
  "ex_manifest_v1 =
     \<lparr> pkg_name = Some ''@scope/name'',
       pkg_keywords = Some (JArr [JStr ''ember-addon'']),
       pkg_dependencies = Some [(''ember-cli-babel'', JStr ''^7.26.0''), (''x'', JStr '''')],
       pkg_devDependencies = Some [(''typescript'', JStr ''^5.0.0'')],
       pkg_ember_addon = Some (JObj [(''configPath'', JStr ''tests/dummy/config'')]),
       pkg_ember = Some (JObj [(''edition'', JStr ''octane'')]) \<rparr>"

definition ex_manifest_v2 :: PackageJson where
  "ex_manifest_v2 =
     ex_manifest_v1 \<lparr> pkg_ember_addon :=
        Some (JObj [(''version'', JNum 2), (''type'', JStr ''addon'')]) \<rparr>"

definition ex_env :: Suppliers where
  "ex_env =
     \<lparr> packageJson_read = Inr ex_manifest_v1,
       findRoot = Inr ''/repo'',
       guessPackageManager =
         (\<lambda>repoRoot opts. Inr \<lparr> manager = pnpm, root = ''/repo/packages'' \<rparr>),
       analyzeImports = (\<lambda>dir. Inr [''@ember/component'']),
       createTmp = Inr ''/tmp/ember-addon-migrator--abc'',
       process_cwd = ''/repo/packages/name'' \<rparr>"

definition ex_info :: AddonInfo where
  "ex_info =
     \<lparr> packageJson = ex_manifest_v1, options = ex_options, packageManager = pnpm,
       packageManagerRoot = ''/repo/packages'', gitRoot = ''/repo'',
       tmpDirectory = ''/tmp/ember-addon-migrator--abc'',
       importedDependencies = [''@ember/component''] \<rparr>"

text \<open>The same package with its lockfile at the repository root: a solo repository.\<close>

definition ex_info_solo :: AddonInfo where
  "ex_info_solo = ex_info \<lparr> packageManagerRoot := ''/repo'' \<rparr>"

text \<open>The sample package in a process that runs in the package directory.\<close>

definition ex_world :: world where
  "ex_world = \<lparr> self = ex_info, working_directory = ''/repo/packages/name'' \<rparr>"

section \<open>What a run of create returns\<close>

lemma create_returns:
  assumes "run_create env opts = (Inr info, calls)"
  shows "\<exists>pkgJson repoRoot pm imported tmp.
           packageJson_read env = Inr pkgJson \<and>
           findRoot env = Inr repoRoot \<and>
           guessPackageManager env repoRoot opts = Inr pm \<and>
           analyzeImports env (process_cwd env) = Inr imported \<and>
           createTmp env = Inr tmp \<and>
           info = \<lparr> packageJson = pkgJson, options = opts, packageManager = manager pm,
                    packageManagerRoot = root pm, gitRoot = repoRoot, tmpDirectory = tmp,
                    importedDependencies = imported \<rparr> \<and>
           isV2Addon info = Inr False \<and>
           calls = [Call_packageJson_read, Call_findRoot, Call_guessPackageManager,
                    Call_analyzeImports, Call_createTmp]"
  using assms
  by (auto simp: run_create_def create_def await_def tryOrFail_def invoke_def new_AddonInfo_def
        Let_def throw_def return_def split: sum.splits bool.splits)

lemma create_reaches_classification:
  assumes "packageJson_read env = Inr pkgJson"
    and "findRoot env = Inr repoRoot"
    and "guessPackageManager env repoRoot opts = Inr pm"
    and "analyzeImports env (process_cwd env) = Inr imported"
    and "createTmp env = Inr tmp"
    and "info = \<lparr> packageJson = pkgJson, options = opts, packageManager = manager pm,
                    packageManagerRoot = root pm, gitRoot = repoRoot, tmpDirectory = tmp,
                    importedDependencies = imported \<rparr>"
  shows "fst (run_create env opts) =
           (case isV2Addon info of
              Inl e \<Rightarrow> Inl e
            | Inr True \<Rightarrow> Inl (NothingToDoError
                 (template_name (name info) @ '' is already a V2 addon. Migration will stop.''))
            | Inr False \<Rightarrow> Inr info)"
  using assms
  by (simp add: run_create_def create_def await_def tryOrFail_def invoke_def new_AddonInfo_def
        Let_def throw_def return_def split: sum.splits bool.splits)

lemma run_ex:
  "run_create ex_env ex_options =
     (Inr ex_info, [Call_packageJson_read, Call_findRoot, Call_guessPackageManager,
                    Call_analyzeImports, Call_createTmp])"
  by (simp add: run_create_def create_def await_def tryOrFail_def invoke_def new_AddonInfo_def
        Let_def throw_def return_def ex_env_def ex_info_def ex_manifest_v1_def ex_options_def
        isV2Addon_def isAddon_def isEmber_def object_prototype_names_def)

section \<open>Topology\<close>

text \<open>
  Claim C3. For every constructed \<open>AddonInfo\<close>, \<open>isBiggerMonorepo\<close> is true if and only if
  the root that the package-manager detector returned differs from the root that the
  repository-root finder returned. The two are compared as strings, by value: two paths
  that spell the same directory differently (a trailing slash) differ.
\<close>

theorem isBiggerMonorepo_iff_roots_differ:
  assumes "run_create env opts = (Inr info, calls)"
  shows "\<exists>repoRoot pm.
           findRoot env = Inr repoRoot \<and>
           guessPackageManager env repoRoot opts = Inr pm \<and>
           gitRoot info = repoRoot \<and> packageManagerRoot info = root pm \<and>
           isBiggerMonorepo info = (root pm \<noteq> repoRoot)"
proof -
  from create_returns [OF assms] obtain pkgJson repoRoot pm imported tmp where
    "findRoot env = Inr repoRoot" "guessPackageManager env repoRoot opts = Inr pm"
    "info = \<lparr> packageJson = pkgJson, options = opts, packageManager = manager pm,
              packageManagerRoot = root pm, gitRoot = repoRoot, tmpDirectory = tmp,
              importedDependencies = imported \<rparr>"
    by blast
  then show ?thesis by (simp add: isBiggerMonorepo_def)
qed

theorem isBiggerMonorepo_iff_roots_differ_witness:
  "isBiggerMonorepo ex_info \<and> \<not> isBiggerMonorepo ex_info_solo"
proof -
  have "\<exists>repoRoot pm.
           findRoot ex_env = Inr repoRoot \<and>
           guessPackageManager ex_env repoRoot ex_options = Inr pm \<and>
           gitRoot ex_info = repoRoot \<and> packageManagerRoot ex_info = root pm \<and>
           isBiggerMonorepo ex_info = (root pm \<noteq> repoRoot)"
    by (rule isBiggerMonorepo_iff_roots_differ [OF run_ex])
  then have "isBiggerMonorepo ex_info" by (auto simp: ex_env_def)
  moreover have "\<not> isBiggerMonorepo ex_info_solo"
    by (simp add: isBiggerMonorepo_def ex_info_solo_def ex_info_def)
  ultimately show ?thesis by simp
qed

section \<open>Classification\<close>

lemma isAddon_keyword:
  assumes "isEmber info"
    and "pkg_keywords (packageJson info) = Some (JArr ks)"
    and "JStr ''ember-addon'' \<in> set ks"
  shows "isAddon info = Inr True"
  using assms by (simp add: isAddon_def)

lemma version_tag_2:
  assumes "map_of kv ''version'' = Some (JNum 2)"
  shows "version_is_2 (Some (JObj kv)) = Inr True"
proof -
  from assms have "(''version'', JNum 2) \<in> set kv" by (rule map_of_SomeD)
  then have "''version'' \<in> set (map fst kv)" by force
  with assms show ?thesis by simp
qed

text \<open>
  Claim C1. A manifest whose \<open>ember-addon\<close> block carries the version tag 2 (the block is
  then an object, so the manifest has Ember-ness) and whose keyword list has
  \<open>ember-addon\<close> is a v2 addon and not a v1 addon. Whenever the manifest reader returns
  such a manifest, \<open>create\<close> returns no \<open>AddonInfo\<close>, whatever the other suppliers do; and
  when the other suppliers succeed, so that the run reaches the classification, it
  raises \<open>NothingToDoError\<close> with the message that starts with the package name.
\<close>

theorem v2_manifest_nothing_to_do:
  assumes block: "pkg_ember_addon pkg = Some (JObj kv)"
    and tag: "map_of kv ''version'' = Some (JNum 2)"
    and kws: "pkg_keywords pkg = Some (JArr ks)"
    and keyword: "JStr ''ember-addon'' \<in> set ks"
    and manifest: "packageJson info = pkg"
  shows "isEmber info \<and> isV2Addon info = Inr True \<and> isV1Addon info = Inr False \<and>
         (packageJson_read env = Inr pkg \<longrightarrow>
            (\<forall>returned. fst (run_create env opts) \<noteq> Inr returned) \<and>
            (\<forall>repoRoot pm imported tmp n.
               findRoot env = Inr repoRoot \<longrightarrow>
               guessPackageManager env repoRoot opts = Inr pm \<longrightarrow>
               analyzeImports env (process_cwd env) = Inr imported \<longrightarrow>
               createTmp env = Inr tmp \<longrightarrow>
               pkg_name pkg = Some n \<longrightarrow>
               fst (run_create env opts) =
                 Inl (NothingToDoError (n @ '' is already a V2 addon. Migration will stop.''))))"
proof -
  have v2: "isV2Addon i = Inr True" if "packageJson i = pkg" for i :: AddonInfo
  proof -
    from that block have "isEmber i" by (simp add: isEmber_def)
    with that kws keyword have "isAddon i = Inr True" by (simp add: isAddon_keyword)
    with that block version_tag_2 [OF tag] show ?thesis
      by (simp add: isV2Addon_def del: version_is_2.simps)
  qed
  have ember: "isEmber info" using manifest block by (simp add: isEmber_def)
  have addon: "isAddon info = Inr True"
    using ember manifest kws keyword by (simp add: isAddon_keyword)
  have v1: "isV1Addon info = Inr False"
    using addon v2 [OF manifest] by (simp add: isV1Addon_def)
  have never: "fst (run_create env opts) \<noteq> Inr returned"
    if read: "packageJson_read env = Inr pkg" for returned
  proof
    assume "fst (run_create env opts) = Inr returned"
    then have "run_create env opts = (Inr returned, snd (run_create env opts))"
      by (simp add: prod_eq_iff)
    from create_returns [OF this] read
    have "packageJson returned = pkg" and "isV2Addon returned = Inr False" by auto
    with v2 [of returned] show False by simp
  qed
  have raised: "fst (run_create env opts) =
                 Inl (NothingToDoError (n @ '' is already a V2 addon. Migration will stop.''))"
    if "packageJson_read env = Inr pkg" "findRoot env = Inr repoRoot"
      "guessPackageManager env repoRoot opts = Inr pm"
      "analyzeImports env (process_cwd env) = Inr imported" "createTmp env = Inr tmp"
      "pkg_name pkg = Some n" for repoRoot pm imported tmp n
  proof -
    let ?i = "\<lparr> packageJson = pkg, options = opts, packageManager = manager pm,
                packageManagerRoot = root pm, gitRoot = repoRoot, tmpDirectory = tmp,
                importedDependencies = imported \<rparr>"
    have "isV2Addon ?i = Inr True" by (rule v2) simp
    moreover have "template_name (name ?i) = n"
      using that(6) by (simp add: template_name_def name_def)
    ultimately show ?thesis
      using create_reaches_classification [OF that(1-5) refl] by simp
  qed
  from ember v2 [OF manifest] v1 never raised show ?thesis by blast
qed

theorem v2_manifest_nothing_to_do_witness:
  "isV2Addon (ex_info \<lparr> packageJson := ex_manifest_v2 \<rparr>) = Inr True \<and>
   isV1Addon (ex_info \<lparr> packageJson := ex_manifest_v2 \<rparr>) = Inr False \<and>
   fst (run_create (ex_env \<lparr> packageJson_read := Inr ex_manifest_v2 \<rparr>) ex_options) =
     Inl (NothingToDoError ''@scope/name is already a V2 addon. Migration will stop.'')"
proof -
  let ?kv = "[(''version'', JNum 2), (''type'', JStr ''addon'')]"
  let ?env = "ex_env \<lparr> packageJson_read := Inr ex_manifest_v2 \<rparr>"
  have block: "pkg_ember_addon ex_manifest_v2 = Some (JObj ?kv)"
    by (simp add: ex_manifest_v2_def)
  have tag: "map_of ?kv ''version'' = Some (JNum 2)" by simp
  have kws: "pkg_keywords ex_manifest_v2 = Some (JArr [JStr ''ember-addon''])"
    by (simp add: ex_manifest_v2_def ex_manifest_v1_def)
  have keyword: "JStr ''ember-addon'' \<in> set [JStr ''ember-addon'']" by simp
  have manifest: "packageJson (ex_info \<lparr> packageJson := ex_manifest_v2 \<rparr>) = ex_manifest_v2"
    by simp
  note inst = v2_manifest_nothing_to_do [OF block tag kws keyword manifest,
      of ?env ex_options]
  have read: "packageJson_read ?env = Inr ex_manifest_v2" by simp
  have "findRoot ?env = Inr ''/repo''"
    "guessPackageManager ?env ''/repo'' ex_options =
       Inr \<lparr> manager = pnpm, root = ''/repo/packages'' \<rparr>"
    "analyzeImports ?env (process_cwd ?env) = Inr [''@ember/component'']"
    "createTmp ?env = Inr ''/tmp/ember-addon-migrator--abc''"
    "pkg_name ex_manifest_v2 = Some ''@scope/name''"
    by (simp_all add: ex_env_def ex_manifest_v2_def ex_manifest_v1_def)
  with inst read show ?thesis by simp
qed

text \<open>
  Claim C7. A manifest with Ember-ness and the keyword \<open>ember-addon\<close> whose \<open>ember-addon\<close>
  block is absent, or is an object with no version tag or with a version tag other than
  the number 2, is a v1 addon and not a v2 addon.
\<close>

theorem v1_when_no_version_tag_2:
  assumes ember: "isEmber info"
    and kws: "pkg_keywords (packageJson info) = Some (JArr ks)"
    and keyword: "JStr ''ember-addon'' \<in> set ks"
    and block: "pkg_ember_addon (packageJson info) = None \<or>
                (\<exists>kv. pkg_ember_addon (packageJson info) = Some (JObj kv) \<and>
                      map_of kv ''version'' \<noteq> Some (JNum 2))"
  shows "isV1Addon info = Inr True \<and> isV2Addon info = Inr False"
proof -
  have addon: "isAddon info = Inr True"
    using ember kws keyword by (rule isAddon_keyword)
  from block have "version_is_2 (pkg_ember_addon (packageJson info)) = Inr False"
    by auto
  with addon have v2: "isV2Addon info = Inr False" by (simp add: isV2Addon_def)
  with addon show ?thesis by (simp add: isV1Addon_def)
qed

theorem v1_when_no_version_tag_2_witness:
  "isV1Addon ex_info = Inr True \<and> isV2Addon ex_info = Inr False \<and>
   isV1Addon (ex_info \<lparr> packageJson := ex_manifest_v1
        \<lparr> pkg_ember_addon := Some (JObj [(''version'', JStr ''2'')]) \<rparr> \<rparr>) = Inr True \<and>
   isV1Addon (ex_info \<lparr> packageJson := ex_manifest_v1 \<lparr> pkg_ember_addon := None \<rparr> \<rparr>) = Inr True"
proof -
  let ?a = "ex_info"
  let ?b = "ex_info \<lparr> packageJson := ex_manifest_v1
        \<lparr> pkg_ember_addon := Some (JObj [(''version'', JStr ''2'')]) \<rparr> \<rparr>"
  let ?c = "ex_info \<lparr> packageJson := ex_manifest_v1 \<lparr> pkg_ember_addon := None \<rparr> \<rparr>"
  have a: "isV1Addon ?a = Inr True \<and> isV2Addon ?a = Inr False"
    by (rule v1_when_no_version_tag_2 [where ks = "[JStr ''ember-addon'']"])
       (simp_all add: ex_info_def ex_manifest_v1_def isEmber_def)
  have b: "isV1Addon ?b = Inr True \<and> isV2Addon ?b = Inr False"
    by (rule v1_when_no_version_tag_2 [where ks = "[JStr ''ember-addon'']"])
       (simp_all add: ex_info_def ex_manifest_v1_def isEmber_def)
  have c: "isV1Addon ?c = Inr True \<and> isV2Addon ?c = Inr False"
    by (rule v1_when_no_version_tag_2 [where ks = "[JStr ''ember-addon'']"])
       (simp_all add: ex_info_def ex_manifest_v1_def isEmber_def)
  from a b c show ?thesis by simp
qed

text \<open>
  Beside the claim: a truthy primitive under \<open>ember-addon\<close> is no metadata block, and the
  \<open>in\<close> test of \<open>isV2Addon\<close> raises on it.
\<close>

lemma primitive_block_raises:
  "isV1Addon (ex_info \<lparr> packageJson := ex_manifest_v1
        \<lparr> pkg_ember_addon := Some (JBool True) \<rparr> \<rparr>) = Inl TypeError"
  by (simp add: isV1Addon_def isV2Addon_def isAddon_def isEmber_def ex_info_def
        ex_manifest_v1_def)

section \<open>Dependency predicates\<close>




text \<open>
  Beside the claim: a name that every object inherits is found by \<open>dependencies[dep]\<close>
  though it is no key of the map.
\<close>

lemma hasDependency_inherited_name:
  "hasDependency ex_info ''constructor'' \<and>
   ''constructor'' \<notin> set (object_keys (pkg_dependencies (packageJson ex_info)))"
  by (simp add: hasDependency_def property_truthy_def object_keys_def ex_info_def
        ex_manifest_v1_def object_prototype_names_def)

section \<open>Path resolution\<close>

lemma bigger_monorepo_default_location:
  assumes "isBiggerMonorepo info" and "opt_addonLocation (options info) = None"
  shows "addonLocation info = Inr ''pacakge''"
  using assms by (simp add: addonLocation_def or_default_def)

text \<open>
  Claim C5 has the default \<open>package\<close> for a bigger monorepo with no \<open>addonLocation\<close>
  option. The getter returns the misspelt literal \<open>pacakge\<close>, here on the sample
  package, whose lockfile lies below the repository root.
\<close>

theorem addonLocation_bigger_monorepo_misspelt:
  "isBiggerMonorepo ex_info \<and> opt_addonLocation (options ex_info) = None \<and>
   addonLocation ex_info = Inr ''pacakge'' \<and> addonLocation ex_info \<noteq> Inr ''package''"
  by (simp add: addonLocation_def or_default_def isBiggerMonorepo_def ex_info_def ex_options_def)

lemma replace_absent: "pat \<notin> set s \<Longrightarrow> replace pat rep s = s"
  by (induction s) auto

lemma replace_first_occurrence:
  "replace pat rep s =
     (case dropWhile (\<lambda>x. x \<noteq> pat) s of
        [] \<Rightarrow> s
      | c # rest \<Rightarrow> takeWhile (\<lambda>x. x \<noteq> pat) s @ rep @ rest)"
proof (induction s)
  case Nil
  show ?case by simp
next
  case (Cons a s)
  show ?case
  proof (cases "a = pat")
    case True
    then show ?thesis by simp
  next
    case False
    with Cons show ?thesis
      by (cases "dropWhile (\<lambda>x. x \<noteq> pat) s") (simp_all del: dropWhile_eq_Nil_conv)
  qed
qed

lemma split_no_separator: "sep \<notin> set s \<Longrightarrow> split sep s = [s]"
  by (induction s) auto

lemma split_at_first_separator:
  "sep \<notin> set s \<Longrightarrow> split sep (s @ sep # rest) = s # split sep rest"
  by (induction s) auto

lemma pathifyNpmName_scoped:
  "pathifyNpmName (CHR ''@'' # rest) = spec_sanitized_package_name (CHR ''@'' # rest)"
  by (simp add: pathifyNpmName_def spec_sanitized_package_name_def replace_first_occurrence)

lemma pathifyNpmName_unscoped:
  assumes "CHR ''@'' \<notin> set n" and "CHR ''/'' \<notin> set n"
  shows "pathifyNpmName n = spec_sanitized_package_name n"
  using assms
  by (cases n) (auto simp: pathifyNpmName_def spec_sanitized_package_name_def replace_absent)

text \<open>
  Claim C6. With no \<open>testAppName\<close> option: in a solo repository \<open>testAppName\<close> is
  \<open>test-app\<close>; in a bigger monorepo it is \<open>test-app-for-\<close> followed by the sanitized
  package name, for every package name that starts with the scope marker or is an
  unscoped name (one with neither \<open>@\<close> nor \<open>/\<close>).
\<close>

theorem testAppName_default:
  assumes "opt_testAppName (options info) = None"
  shows "(\<not> isBiggerMonorepo info \<longrightarrow> testAppName info = Inr ''test-app'') \<and>
         (isBiggerMonorepo info \<longrightarrow> name info = Some n \<longrightarrow>
            (\<exists>rest. n = CHR ''@'' # rest) \<or> (CHR ''@'' \<notin> set n \<and> CHR ''/'' \<notin> set n) \<longrightarrow>
            testAppName info = Inr (''test-app-for-'' @ spec_sanitized_package_name n))"
proof -
  have "pathifyNpmName n = spec_sanitized_package_name n"
    if "(\<exists>rest. n = CHR ''@'' # rest) \<or> (CHR ''@'' \<notin> set n \<and> CHR ''/'' \<notin> set n)"
    using that pathifyNpmName_scoped pathifyNpmName_unscoped by blast
  with assms show ?thesis
    by (simp add: testAppName_def or_else_def or_default_def test_app_for_def)
qed

theorem testAppName_default_witness:
  "testAppName ex_info = Inr ''test-app-for-scope__name'' \<and>
   testAppName ex_info_solo = Inr ''test-app''"
proof -
  have o: "opt_testAppName (options ex_info) = None"
    "opt_testAppName (options ex_info_solo) = None"
    by (simp_all add: ex_info_solo_def ex_info_def ex_options_def)
  have big: "isBiggerMonorepo ex_info" "\<not> isBiggerMonorepo ex_info_solo"
    by (simp_all add: isBiggerMonorepo_def ex_info_solo_def ex_info_def)
  have nm: "name ex_info = Some ''@scope/name''"
    by (simp add: name_def ex_info_def ex_manifest_v1_def)
  have form: "(\<exists>rest. ''@scope/name'' = CHR ''@'' # rest) \<or>
              (CHR ''@'' \<notin> set ''@scope/name'' \<and> CHR ''/'' \<notin> set ''@scope/name'')"
    by simp
  have san: "spec_sanitized_package_name ''@scope/name'' = ''scope__name''"
    by (simp add: spec_sanitized_package_name_def)
  from testAppName_default [OF o(1), of "''@scope/name''"] big(1) nm form san
  have "testAppName ex_info = Inr ''test-app-for-scope__name''" by simp
  moreover from testAppName_default [OF o(2)] big(2)
  have "testAppName ex_info_solo = Inr ''test-app''" by simp
  ultimately show ?thesis by simp
qed

text \<open>
  Beside the claim: \<open>replace\<close> removes the first \<open>@\<close> wherever it stands, so on a name
  with an inner \<open>@\<close> the getter and the sanitization of the specification differ; and
  on a manifest without a name the getter raises.
\<close>

lemma pathifyNpmName_inner_marker:
  "pathifyNpmName ''a@b'' = ''ab'' \<and> spec_sanitized_package_name ''a@b'' = ''a@b''"
  by (simp add: pathifyNpmName_def spec_sanitized_package_name_def)

lemma testAppName_without_name:
  "testAppName (ex_info \<lparr> packageJson := ex_manifest_v1 \<lparr> pkg_name := None \<rparr> \<rparr>) = Inl TypeError"
  by (simp add: testAppName_def or_else_def test_app_for_def isBiggerMonorepo_def name_def
        ex_info_def ex_options_def)

text \<open>
  Claim C8. In a solo repository with no \<open>addonLocation\<close> option, a scoped package name
  \<open>@scope/name\<close> gives the location \<open>name\<close>, the segment after the scope separator, and
  a name with no separator gives the whole name.
\<close>

theorem addonLocation_solo_default:
  assumes "\<not> isBiggerMonorepo info"
    and "opt_addonLocation (options info) = None"
    and "name info = Some n"
  shows "(\<forall>scope nm. n = CHR ''@'' # scope @ CHR ''/'' # nm \<longrightarrow>
            CHR ''/'' \<notin> set scope \<longrightarrow> CHR ''/'' \<notin> set nm \<longrightarrow>
            addonLocation info = Inr nm) \<and>
         (CHR ''/'' \<notin> set n \<longrightarrow> addonLocation info = Inr n)"
proof -
  have loc: "addonLocation info =
               (case index1 (split CHR ''/'' n) of Some seg \<Rightarrow> Inr seg | None \<Rightarrow> Inr n)"
    using assms by (simp add: addonLocation_def or_else_def name_after_slash_def)
  have scoped: "addonLocation info = Inr nm"
    if "n = CHR ''@'' # scope @ CHR ''/'' # nm" "CHR ''/'' \<notin> set scope" "CHR ''/'' \<notin> set nm"
    for scope nm
  proof -
    from that have "split CHR ''/'' n = (CHR ''@'' # scope) # [nm]"
      using split_at_first_separator [of "CHR ''/''" "CHR ''@'' # scope" nm]
      by (simp add: split_no_separator)
    with loc show ?thesis by simp
  qed
  have unscoped: "addonLocation info = Inr n" if "CHR ''/'' \<notin> set n"
    using that loc by (simp add: split_no_separator)
  from scoped unscoped show ?thesis by blast
qed

theorem addonLocation_solo_default_witness:
  "addonLocation ex_info_solo = Inr ''name'' \<and>
   addonLocation (ex_info_solo \<lparr> packageJson := ex_manifest_v1 \<lparr> pkg_name := Some ''name'' \<rparr> \<rparr>)
     = Inr ''name''"
proof -
  let ?u = "ex_info_solo \<lparr> packageJson := ex_manifest_v1 \<lparr> pkg_name := Some ''name'' \<rparr> \<rparr>"
  have s: "\<not> isBiggerMonorepo ex_info_solo" "opt_addonLocation (options ex_info_solo) = None"
    "name ex_info_solo = Some ''@scope/name''"
    by (simp_all add: isBiggerMonorepo_def name_def ex_info_solo_def ex_info_def ex_options_def
          ex_manifest_v1_def)
  have u: "\<not> isBiggerMonorepo ?u" "opt_addonLocation (options ?u) = None"
    "name ?u = Some ''name''"
    by (simp_all add: isBiggerMonorepo_def name_def ex_info_solo_def ex_info_def ex_options_def)
  from addonLocation_solo_default [OF s]
  have "''@scope/name'' = CHR ''@'' # ''scope'' @ CHR ''/'' # ''name'' \<longrightarrow>
        CHR ''/'' \<notin> set ''scope'' \<longrightarrow> CHR ''/'' \<notin> set ''name'' \<longrightarrow>
        addonLocation ex_info_solo = Inr ''name''"
    by blast
  then have "addonLocation ex_info_solo = Inr ''name''" by simp
  moreover from addonLocation_solo_default [OF u]
  have "addonLocation ?u = Inr ''name''" by simp
  ultimately show ?thesis by simp
qed

text \<open>
  Beside the claim: of a name with more than one separator the getter keeps the second
  segment only, and on a manifest without a name it raises.
\<close>

lemma addonLocation_second_segment:
  "addonLocation (ex_info_solo \<lparr> packageJson := ex_manifest_v1 \<lparr> pkg_name := Some ''@s/a/b'' \<rparr> \<rparr>)
     = Inr ''a''"
  by (simp add: addonLocation_def or_else_def name_after_slash_def isBiggerMonorepo_def name_def
        ex_info_solo_def ex_info_def ex_options_def)

lemma addonLocation_without_name:
  "addonLocation (ex_info_solo \<lparr> packageJson := ex_manifest_v1 \<lparr> pkg_name := None \<rparr> \<rparr>)
     = Inl TypeError"
  by (simp add: addonLocation_def or_else_def name_after_slash_def isBiggerMonorepo_def name_def
        ex_info_solo_def ex_info_def ex_options_def)

text \<open>
  Claim C10. An option supplied as the empty string is treated as absent: each of
  \<open>directory\<close>, \<open>addonLocation\<close>, \<open>testAppLocation\<close> and \<open>testAppName\<close> answers with
  \<open>""\<close> for its option what it answers with the option left out, the default.
\<close>

theorem empty_option_is_absent:
  "directory cwd (info \<lparr> options := (options info) \<lparr> opt_directory := Some '''' \<rparr> \<rparr>) =
     directory cwd (info \<lparr> options := (options info) \<lparr> opt_directory := None \<rparr> \<rparr>) \<and>
   addonLocation (info \<lparr> options := (options info) \<lparr> opt_addonLocation := Some '''' \<rparr> \<rparr>) =
     addonLocation (info \<lparr> options := (options info) \<lparr> opt_addonLocation := None \<rparr> \<rparr>) \<and>
   testAppLocation (info \<lparr> options := (options info) \<lparr> opt_testAppLocation := Some '''' \<rparr> \<rparr>) =
     testAppLocation (info \<lparr> options := (options info) \<lparr> opt_testAppLocation := None \<rparr> \<rparr>) \<and>
   testAppName (info \<lparr> options := (options info) \<lparr> opt_testAppName := Some '''' \<rparr> \<rparr>) =
     testAppName (info \<lparr> options := (options info) \<lparr> opt_testAppName := None \<rparr> \<rparr>) \<and>
   directory cwd (info \<lparr> options := (options info) \<lparr> opt_directory := Some '''' \<rparr> \<rparr>) = cwd \<and>
   testAppLocation (info \<lparr> options := (options info) \<lparr> opt_testAppLocation := Some '''' \<rparr> \<rparr>) =
     ''test-app''"
  by (simp add: directory_def addonLocation_def testAppLocation_def testAppName_def
        or_default_def or_else_def isBiggerMonorepo_def name_def)

theorem empty_option_is_absent_witness:
  "directory ''/cwd'' (ex_info \<lparr> options := ex_options \<lparr> opt_directory := Some '''' \<rparr> \<rparr>) = ''/cwd'' \<and>
   addonLocation (ex_info_solo \<lparr> options := ex_options \<lparr> opt_addonLocation := Some '''' \<rparr> \<rparr>) =
     Inr ''name'' \<and>
   testAppLocation (ex_info \<lparr> options := ex_options \<lparr> opt_testAppLocation := Some '''' \<rparr> \<rparr>) =
     ''test-app'' \<and>
   testAppName (ex_info \<lparr> options := ex_options \<lparr> opt_testAppName := Some '''' \<rparr> \<rparr>) =
     Inr ''test-app-for-scope__name''"
proof -
  have o: "options ex_info = ex_options" "options ex_info_solo = ex_options"
    by (simp_all add: ex_info_solo_def ex_info_def)
  note big = empty_option_is_absent [of "''/cwd''" ex_info, unfolded o]
  note solo = empty_option_is_absent [of "''/cwd''" ex_info_solo, unfolded o]
  from big have d: "directory ''/cwd''
       (ex_info \<lparr> options := ex_options \<lparr> opt_directory := Some '''' \<rparr> \<rparr>) = ''/cwd''"
    by blast
  from big have l: "testAppLocation
       (ex_info \<lparr> options := ex_options \<lparr> opt_testAppLocation := Some '''' \<rparr> \<rparr>) = ''test-app''"
    by blast
  from solo have "addonLocation
       (ex_info_solo \<lparr> options := ex_options \<lparr> opt_addonLocation := Some '''' \<rparr> \<rparr>) =
     addonLocation (ex_info_solo \<lparr> options := ex_options \<lparr> opt_addonLocation := None \<rparr> \<rparr>)"
    by blast
  also have "\<dots> = Inr ''name''"
    by (simp add: addonLocation_def or_else_def isBiggerMonorepo_def name_def
          name_after_slash_def ex_info_solo_def ex_info_def ex_manifest_v1_def ex_options_def)
  finally have a: "addonLocation
       (ex_info_solo \<lparr> options := ex_options \<lparr> opt_addonLocation := Some '''' \<rparr> \<rparr>) =
     Inr ''name''" .
  from big have "testAppName
       (ex_info \<lparr> options := ex_options \<lparr> opt_testAppName := Some '''' \<rparr> \<rparr>) =
     testAppName (ex_info \<lparr> options := ex_options \<lparr> opt_testAppName := None \<rparr> \<rparr>)"
    by blast
  also have "\<dots> = Inr ''test-app-for-scope__name''"
    by (simp add: testAppName_def or_else_def isBiggerMonorepo_def name_def
          test_app_for_def pathifyNpmName_def ex_info_def ex_manifest_v1_def ex_options_def)
  finally have n: "testAppName
       (ex_info \<lparr> options := ex_options \<lparr> opt_testAppName := Some '''' \<rparr> \<rparr>) =
     Inr ''test-app-for-scope__name''" .
  from d a l n show ?thesis by blast
qed

section \<open>Purity of the query surface\<close>

text \<open>
  Claim C9, as stated, fails: with no \<open>directory\<close> option, \<open>directory\<close> answers with the
  working directory of the process at the time of the call, so two calls on the same
  \<open>AddonInfo\<close> differ when the process has changed directory in between.
\<close>

theorem directory_follows_working_directory:
  "ask ''/repo/packages/name'' ex_info Q_directory = Inr (Str ''/repo/packages/name'') \<and>
   ask ''/elsewhere'' ex_info Q_directory = Inr (Str ''/elsewhere'') \<and>
   ask ''/repo/packages/name'' ex_info Q_directory \<noteq> ask ''/elsewhere'' ex_info Q_directory"
  by (simp add: directory_def or_default_def ex_info_def ex_options_def)

text \<open>
  Every getter, run as an operation on the program state, returns what the getter of
  the earlier section returns on the object and the working directory of the state it
  runs in, and leaves the state as it found it: none assigns to a field, and only
  \<open>directory\<close> reads the process.
\<close>

lemmas operation_defs =
  m_return_def m_lift_def m_bind_def read_self_def m_process_cwd_def m_or_def m_bool_def m_str_def

lemma m_isEmber_run: "m_isEmber w = (Inr (isEmber (self w)), w)"
  by (simp add: m_isEmber_def isEmber_def operation_defs)

lemma m_isAddon_run: "m_isAddon w = (isAddon (self w), w)"
  by (simp add: m_isAddon_def isAddon_def m_isEmber_run operation_defs)

lemma m_isV2Addon_run: "m_isV2Addon w = (isV2Addon (self w), w)"
  by (simp add: m_isV2Addon_def isV2Addon_def m_isAddon_run operation_defs
        split: sum.splits bool.splits)

lemma m_isV1Addon_run: "m_isV1Addon w = (isV1Addon (self w), w)"
  by (simp add: m_isV1Addon_def isV1Addon_def m_isAddon_run m_isV2Addon_run operation_defs
        split: sum.splits bool.splits)

lemma m_isBiggerMonorepo_run: "m_isBiggerMonorepo w = (Inr (isBiggerMonorepo (self w)), w)"
  by (simp add: m_isBiggerMonorepo_def isBiggerMonorepo_def operation_defs)

lemma m_name_run: "m_name w = (Inr (name (self w)), w)"
  by (simp add: m_name_def name_def operation_defs)

lemma m_directory_run:
  "m_directory w = (Inr (directory (working_directory w) (self w)), w)"
  by (simp add: m_directory_def directory_def or_default_def operation_defs split: option.splits)

lemma m_addonLocation_run: "m_addonLocation w = (addonLocation (self w), w)"
  by (simp add: m_addonLocation_def addonLocation_def m_isBiggerMonorepo_run m_name_run
        or_default_def or_else_def operation_defs split: option.splits)

lemma m_testAppLocation_run: "m_testAppLocation w = (Inr (testAppLocation (self w)), w)"
  by (simp add: m_testAppLocation_def testAppLocation_def or_default_def operation_defs
        split: option.splits)

lemma m_testAppName_run: "m_testAppName w = (testAppName (self w), w)"
  by (simp add: m_testAppName_def testAppName_def m_isBiggerMonorepo_run m_name_run
        or_default_def or_else_def operation_defs split: option.splits)

lemma call_query_run:
  "call_query q w = (ask (working_directory w) (self w) q, w)"
proof (cases q)
  case Q_name
  then show ?thesis by (simp add: m_name_run operation_defs)
next
  case Q_isTS
  then show ?thesis
    by (simp add: m_isTS_def m_localDependencyNames_def isTS_def localDependencyNames_def
          operation_defs)
next
  case Q_isYarn
  then show ?thesis by (simp add: m_isYarn_def isYarn_def operation_defs)
next
  case Q_isNpm
  then show ?thesis by (simp add: m_isNpm_def isNpm_def operation_defs)
next
  case Q_isPnpm
  then show ?thesis by (simp add: m_isPnpm_def isPnpm_def operation_defs)
next
  case Q_isEmber
  then show ?thesis by (simp add: m_isEmber_run operation_defs)
next
  case Q_isAddon
  then show ?thesis
    by (simp add: m_isAddon_run answer_bool_def operation_defs split: sum.splits)
next
  case Q_isV1Addon
  then show ?thesis
    by (simp add: m_isV1Addon_run answer_bool_def operation_defs split: sum.splits)
next
  case Q_isV2Addon
  then show ?thesis
    by (simp add: m_isV2Addon_run answer_bool_def operation_defs split: sum.splits)
next
  case Q_isBiggerMonorepo
  then show ?thesis by (simp add: m_isBiggerMonorepo_run operation_defs)
next
  case Q_directory
  then show ?thesis by (simp add: m_directory_run operation_defs)
next
  case Q_tmpLocation
  then show ?thesis by (simp add: m_tmpLocation_def tmpLocation_def operation_defs)
next
  case Q_addonLocation
  then show ?thesis
    by (simp add: m_addonLocation_run answer_str_def operation_defs split: sum.splits)
next
  case Q_testAppLocation
  then show ?thesis by (simp add: m_testAppLocation_run operation_defs)
next
  case Q_testAppName
  then show ?thesis
    by (simp add: m_testAppName_run answer_str_def operation_defs split: sum.splits)
next
  case (Q_hasDependency dep)
  then show ?thesis by (simp add: m_hasDependency_def hasDependency_def operation_defs)
next
  case (Q_hasDevDependency dep)
  then show ?thesis by (simp add: m_hasDevDependency_def hasDevDependency_def operation_defs)
qed

text \<open>A history changes the working directory at most; the object stays what it was.\<close>

lemma run_keeps_self: "self (snd (run h w)) = self w"
proof (induction h arbitrary: w)
  case Nil
  show ?case by simp
next
  case (Cons e h)
  show ?case
  proof (cases e)
    case (Query q)
    then show ?thesis using Cons [of w]
      by (simp add: call_query_run case_prod_beta del: call_query.simps)
  next
    case (Chdir dir)
    then show ?thesis using Cons [of "w \<lparr> working_directory := dir \<rparr>"] by simp
  qed
qed

text \<open>On the stored facts alone, the working directory does not change an answer.\<close>

lemma ask_without_working_directory:
  assumes "q = Q_directory \<longrightarrow>
             (\<exists>d. opt_directory (options info) = Some d \<and> d \<noteq> [])"
  shows "ask cwd info q = ask cwd' info q"
proof (cases q)
  case Q_directory
  with assms obtain d where "opt_directory (options info) = Some d" "d \<noteq> []" by blast
  with Q_directory show ?thesis by (simp add: directory_def or_default_def)
qed simp_all

text \<open>
  \<open>answer_after h q\<close> is the answer that a call of \<open>q\<close> gives at the end of the history
  \<open>h\<close>: the last answer of the history with the call added.
\<close>

lemma run_append:
  "run (h @ h') w =
     (fst (run h w) @ fst (run h' (snd (run h w))), snd (run h' (snd (run h w))))"
proof (induction h arbitrary: w)
  case Nil
  show ?case by simp
next
  case (Cons e h)
  show ?case
  proof (cases e)
    case (Query q)
    then show ?thesis
      using Cons [of "snd (call_query q w)"]
      by (simp add: case_prod_beta del: call_query.simps)
  next
    case (Chdir dir)
    then show ?thesis using Cons [of "w \<lparr> working_directory := dir \<rparr>"] by simp
  qed
qed

lemma answer_after_is_last_answer:
  "fst (run (h @ [Query q]) w) = fst (run h w) @ [answer_after h q w]"
  by (simp add: run_append answer_after_def case_prod_beta del: call_query.simps)

text \<open>
  Claim C9, amended. Every query other than \<open>directory\<close> is a pure function of the
  stored facts. Take two program states that hold the same \<open>AddonInfo\<close> and any two
  histories, each any sequence of queries and of changes of the working directory:
  asked after the one history in the one state and after the other history in the
  other state, the query gives the same answer (or raises the same error), the answer
  is the one the stored facts determine whatever the working directory, and neither
  the history nor the query changes the stored facts. So two calls on the same
  context, at any time and in any order, return equal results. The same holds of
  \<open>directory\<close> when a \<open>directory\<close> option that is not empty was supplied; with none it
  returns the working directory at the time of the call.
\<close>

theorem queries_pure_over_time:
  assumes same: "self w1 = self w2"
    and q: "q = Q_directory \<longrightarrow>
              (\<exists>d. opt_directory (options (self w1)) = Some d \<and> d \<noteq> [])"
  shows "answer_after h1 q w1 = answer_after h2 q w2 \<and>
         answer_after h1 q w1 = ask dir (self w1) q \<and>
         self (snd (run h1 w1)) = self w1 \<and>
         self (snd (call_query q (snd (run h1 w1)))) = self w1"
proof -
  let ?a = "snd (run h1 w1)" and ?b = "snd (run h2 w2)"
  have s: "self ?a = self w1" "self ?b = self w1"
    using same by (simp_all add: run_keeps_self)
  have facts: "answer_after h1 q w1 = ask (working_directory ?a) (self w1) q"
    by (simp add: answer_after_def call_query_run s del: call_query.simps)
  also have "\<dots> = ask (working_directory ?b) (self w1) q"
    using q by (rule ask_without_working_directory)
  also have "\<dots> = answer_after h2 q w2"
    by (simp add: answer_after_def call_query_run s del: call_query.simps)
  finally have "answer_after h1 q w1 = answer_after h2 q w2" .
  moreover have "answer_after h1 q w1 = ask dir (self w1) q"
    using facts ask_without_working_directory [OF q, of "working_directory ?a" dir] by simp
  moreover have "self (snd (call_query q ?a)) = self w1"
    by (simp add: call_query_run s del: call_query.simps)
  ultimately show ?thesis using s by simp
qed

theorem queries_pure_over_time_witness:
  "answer_after [] Q_testAppName ex_world = Inr (Str ''test-app-for-scope__name'') \<and>
   answer_after [Query Q_directory, Chdir ''/elsewhere'', Query Q_isV1Addon] Q_testAppName
     (ex_world \<lparr> working_directory := ''/tmp'' \<rparr>) = Inr (Str ''test-app-for-scope__name'') \<and>
   fst (run [Query Q_isV1Addon, Chdir ''/elsewhere'', Query Q_addonLocation, Query Q_isV1Addon]
          ex_world) =
     [Inr (Bool True), Inr (Str ''pacakge''), Inr (Bool True)]"
proof -
  let ?h = "[Query Q_directory, Chdir ''/elsewhere'', Query Q_isV1Addon]"
  let ?w = "ex_world \<lparr> working_directory := ''/tmp'' \<rparr>"
  have same: "self ex_world = self ?w" by simp
  have q: "Q_testAppName = Q_directory \<longrightarrow>
             (\<exists>d. opt_directory (options (self ex_world)) = Some d \<and> d \<noteq> [])"
    by simp
  have first: "answer_after [] Q_testAppName ex_world = Inr (Str ''test-app-for-scope__name'')"
    by (simp add: answer_after_def call_query_run answer_str_def testAppName_def or_else_def
          test_app_for_def pathifyNpmName_def isBiggerMonorepo_def name_def ex_world_def
          ex_info_def ex_options_def ex_manifest_v1_def del: call_query.simps)
  from queries_pure_over_time [OF same q, of "[]" ?h]
  have "answer_after [] Q_testAppName ex_world = answer_after ?h Q_testAppName ?w" by blast
  with first have second: "answer_after ?h Q_testAppName ?w = Inr (Str ''test-app-for-scope__name'')"
    by simp
  have third: "fst (run [Query Q_isV1Addon, Chdir ''/elsewhere'', Query Q_addonLocation,
                         Query Q_isV1Addon] ex_world) =
                 [Inr (Bool True), Inr (Str ''pacakge''), Inr (Bool True)]"
    by (simp add: call_query_run answer_bool_def answer_str_def isV1Addon_def isV2Addon_def
          isAddon_def isEmber_def addonLocation_def or_default_def isBiggerMonorepo_def
          object_prototype_names_def ex_world_def ex_info_def ex_options_def ex_manifest_v1_def
          del: call_query.simps)
  from first second third show ?thesis by simp
qed

text \<open>
  Beside the claim: in one history, \<open>directory\<close> asked before and after a change of
  the working directory gives two answers.
\<close>

lemma directory_over_time:
  "fst (run [Query Q_directory, Chdir ''/elsewhere'', Query Q_directory] ex_world) =
     [Inr (Str ''/repo/packages/name''), Inr (Str ''/elsewhere'')]"
  by (simp add: call_query_run directory_def or_default_def ex_world_def ex_info_def
        ex_options_def del: call_query.simps)

section \<open>Failure of a supplier\<close>

text \<open>
  Claim C2, as stated, fails: the calls of \<open>analyzeImports\<close> and \<open>createTmp\<close> are not
  guarded by \<open>tryOrFail\<close>. When the scratch directory cannot be created, \<open>create\<close> fails
  with what \<open>createTmp\<close> rejected with, which is none of the four taxonomy errors.
\<close>

theorem unguarded_supplier_failure:
  "createTmp (ex_env \<lparr> createTmp := Inl (Exn ''EACCES'') \<rparr>) = Inl (Exn ''EACCES'') \<and>
   fst (run_create (ex_env \<lparr> createTmp := Inl (Exn ''EACCES'') \<rparr>) ex_options) =
     Inl (Rejected (Exn ''EACCES'')) \<and>
   \<not> is_taxonomy_error (Rejected (Exn ''EACCES''))"
  by (simp add: run_create_def create_def await_def tryOrFail_def invoke_def ex_env_def)

text \<open>
  Claim C2, amended. In every run in which a supplier fails, \<open>create\<close> fails, returns no
  \<open>AddonInfo\<close>, and has called no supplier after the one that failed. When the failing
  supplier is the manifest reader, the repository-root finder or the package-manager
  detector, the error is \<open>ManifestReadError\<close>, \<open>RepoDiscoveryError\<close> or
  \<open>PackageManagerError\<close> respectively; when it is the import analyzer or the
  scratch-directory provisioner, the error is the one that supplier rejected with.
\<close>

theorem first_failure_aborts:
  "(packageJson_read env = Inl x \<longrightarrow>
      run_create env opts = (Inl ManifestReadError, [Call_packageJson_read])) \<and>
   (packageJson_read env = Inr pkgJson \<longrightarrow> findRoot env = Inl x \<longrightarrow>
      run_create env opts = (Inl RepoDiscoveryError, [Call_packageJson_read, Call_findRoot])) \<and>
   (packageJson_read env = Inr pkgJson \<longrightarrow> findRoot env = Inr repoRoot \<longrightarrow>
    guessPackageManager env repoRoot opts = Inl x \<longrightarrow>
      run_create env opts =
        (Inl PackageManagerError,
         [Call_packageJson_read, Call_findRoot, Call_guessPackageManager])) \<and>
   (packageJson_read env = Inr pkgJson \<longrightarrow> findRoot env = Inr repoRoot \<longrightarrow>
    guessPackageManager env repoRoot opts = Inr pm \<longrightarrow>
    analyzeImports env (process_cwd env) = Inl x \<longrightarrow>
      run_create env opts =
        (Inl (Rejected x),
         [Call_packageJson_read, Call_findRoot, Call_guessPackageManager,
          Call_analyzeImports])) \<and>
   (packageJson_read env = Inr pkgJson \<longrightarrow> findRoot env = Inr repoRoot \<longrightarrow>
    guessPackageManager env repoRoot opts = Inr pm \<longrightarrow>
    analyzeImports env (process_cwd env) = Inr imported \<longrightarrow>
    createTmp env = Inl x \<longrightarrow>
      run_create env opts =
        (Inl (Rejected x),
         [Call_packageJson_read, Call_findRoot, Call_guessPackageManager,
          Call_analyzeImports, Call_createTmp]))"
  by (simp add: run_create_def create_def await_def tryOrFail_def invoke_def
        ManifestReadError_def RepoDiscoveryError_def PackageManagerError_def)

theorem first_failure_aborts_witness:
  "run_create (ex_env \<lparr> packageJson_read := Inl (Exn ''ENOENT'') \<rparr>) ex_options =
     (Inl ManifestReadError, [Call_packageJson_read]) \<and>
   run_create (ex_env \<lparr> findRoot := Inl (Exn ''not a git repository'') \<rparr>) ex_options =
     (Inl RepoDiscoveryError, [Call_packageJson_read, Call_findRoot]) \<and>
   run_create (ex_env \<lparr> guessPackageManager := (\<lambda>r opts. Inl (Exn ''no lockfile'')) \<rparr>)
       ex_options =
     (Inl PackageManagerError, [Call_packageJson_read, Call_findRoot, Call_guessPackageManager]) \<and>
   is_taxonomy_error ManifestReadError \<and> is_taxonomy_error RepoDiscoveryError \<and>
   is_taxonomy_error PackageManagerError"
proof -
  let ?e1 = "ex_env \<lparr> packageJson_read := Inl (Exn ''ENOENT'') \<rparr>"
  let ?e2 = "ex_env \<lparr> findRoot := Inl (Exn ''not a git repository'') \<rparr>"
  let ?e3 = "ex_env \<lparr> guessPackageManager := (\<lambda>r opts. Inl (Exn ''no lockfile'')) \<rparr>"
  have r1: "packageJson_read ?e1 = Inl (Exn ''ENOENT'')" by simp
  have r2: "packageJson_read ?e2 = Inr ex_manifest_v1"
    "findRoot ?e2 = Inl (Exn ''not a git repository'')"
    by (simp_all add: ex_env_def)
  have r3: "packageJson_read ?e3 = Inr ex_manifest_v1" "findRoot ?e3 = Inr ''/repo''"
    "guessPackageManager ?e3 ''/repo'' ex_options = Inl (Exn ''no lockfile'')"
    by (simp_all add: ex_env_def)
  from first_failure_aborts [of ?e1 "Exn ''ENOENT''" ex_options] r1
  have a: "run_create ?e1 ex_options = (Inl ManifestReadError, [Call_packageJson_read])"
    by blast
  from first_failure_aborts [of ?e2 "Exn ''not a git repository''" ex_options ex_manifest_v1] r2
  have b: "run_create ?e2 ex_options =
             (Inl RepoDiscoveryError, [Call_packageJson_read, Call_findRoot])"
    by blast
  from first_failure_aborts [of ?e3 "Exn ''no lockfile''" ex_options ex_manifest_v1 "''/repo''"] r3
  have c: "run_create ?e3 ex_options =
             (Inl PackageManagerError,
              [Call_packageJson_read, Call_findRoot, Call_guessPackageManager])"
    by blast
  have t: "is_taxonomy_error ManifestReadError" "is_taxonomy_error RepoDiscoveryError"
    "is_taxonomy_error PackageManagerError"
    by (simp_all add: ManifestReadError_def RepoDiscoveryError_def PackageManagerError_def)
  from a b c t show ?thesis by simp
qed

end
